theory Spec2Isabelle
  imports Main
begin

section \<open>Recruiter identity and session authentication (app/routes/recruiter.py)\<close>

subsection \<open>Data model\<close>

text \<open>
  Timestamps are Python \<^verbatim>\<open>datetime\<close> values, all brought to UTC by the handlers before
  they are compared or stored; they are counted here in microseconds (the resolution of
  \<^verbatim>\<open>datetime\<close>) since the epoch.
\<close>

type_synonym datetime = int

definition timedelta_seconds :: "int \<Rightarrow> int" where
  "timedelta_seconds s = s * 1000000"

definition timedelta_days :: "int \<Rightarrow> int" where
  "timedelta_days d = timedelta_seconds (d * 86400)"

text \<open>
  One row of the recruiter table. The columns are the ones the handlers name: the
  twenty-one columns selected by \<^verbatim>\<open>login_recruiter\<close> and the two OTP columns written by
  \<^verbatim>\<open>send_otp\<close>. The columns \<^verbatim>\<open>id\<close> and \<^verbatim>\<open>zip\<close> carry a suffix, since both names are
  constants of HOL.
\<close>

record Recruiter =
  id_col :: int
  name :: string
  email :: string
  password_hash :: string
  email_verified :: bool
  phone :: "string option"
  designation :: "string option"
  company_name :: "string option"
  company_logo :: "string option"
  website :: "string option"
  industry :: "string option"
  min_company_size :: "int option"
  max_company_size :: "int option"
  country :: "string option"
  state :: "string option"
  city :: "string option"
  zip_col :: "string option"
  address :: "string option"
  verified :: bool
  created_at :: datetime
  updated_at :: datetime
  email_otp :: "string option"
  email_otp_expiry :: "datetime option"

text \<open>The table: its rows, in insertion order.\<close>

type_synonym store = "Recruiter list"

text \<open>Exceptions that leave a handler (nothing in the module catches any).\<close>

datatype exn =
  NoResultFound
  | MultipleResultsFound
  | TypeError
  | IndexError
  | IntegrityError
  | DeliveryError string

type_synonym 'a result = "exn + 'a"

text \<open>JSON values of a response body, and the response the framework sends.\<close>

datatype json = JNull | JBool bool | JInt int | JStr string | JDateTime datetime

type_synonym body = "(string \<times> json) list"

record response =
  status_code :: nat
  headers :: "(string \<times> string) list"
  content :: body

text \<open>
  The collaborators imported from outside the module, taken as parameters:
  \<^verbatim>\<open>security.hash_password\<close>, \<^verbatim>\<open>security.verify_password\<close>, \<^verbatim>\<open>jwt.encode\<close> (applied to the
  payload \<^verbatim>\<open>{"id": ..., "exp": ...}\<close>) and \<^verbatim>\<open>brevo.send_otp_email\<close>. A call to the mail
  service either raises, or returns what it has to report about the delivery; the
  caller does not look at the value returned.
\<close>

datatype delivery = Delivered | NotDelivered

record env =
  hash_password :: "string \<Rightarrow> string"
  verify_password :: "string \<Rightarrow> string \<Rightarrow> bool"
  jwt_encode :: "int \<Rightarrow> datetime \<Rightarrow> string"
  send_otp_email :: "string \<Rightarrow> string \<Rightarrow> string \<Rightarrow> delivery result"

subsection \<open>Query helpers\<close>

text \<open>\<^verbatim>\<open>Result.one()\<close>: exactly one row, or an exception.\<close>

fun one :: "'a list \<Rightarrow> 'a result" where
  "one [] = Inl NoResultFound"
| "one [x] = Inr x"
| "one (x # y # zs) = Inl MultipleResultsFound"

text \<open>\<^verbatim>\<open>Result.all()[0]\<close>: the first row, or \<^verbatim>\<open>IndexError\<close> on an empty list.\<close>

fun first_row :: "'a list \<Rightarrow> 'a result" where
  "first_row [] = Inl IndexError"
| "first_row (x # xs) = Inr x"

text \<open>\<^verbatim>\<open>update(Recruiter).values(...).where(...)\<close> and the rows of its \<^verbatim>\<open>RETURNING\<close> clause.\<close>

definition update_where :: "(Recruiter \<Rightarrow> bool) \<Rightarrow> (Recruiter \<Rightarrow> Recruiter) \<Rightarrow> store \<Rightarrow> store" where
  "update_where p f db = map (\<lambda>r. if p r then f r else r) db"

definition returning :: "(Recruiter \<Rightarrow> bool) \<Rightarrow> (Recruiter \<Rightarrow> Recruiter) \<Rightarrow> store \<Rightarrow> Recruiter list" where
  "returning p f db = map f (filter p db)"

subsection \<open>OTP generation (send\_otp, lines 178--179)\<close>

text \<open>Python's \<^verbatim>\<open>str\<close> of a non-negative integer: its decimal digits, most significant first.\<close>

definition digit_char :: "nat \<Rightarrow> char" where
  "digit_char d = ''0123456789'' ! d"

function str_nat :: "nat \<Rightarrow> string" where
  "str_nat n = (if n < 10 then [digit_char n] else str_nat (n div 10) @ [digit_char (n mod 10)])"
  by pat_completeness auto
termination
  by (relation "measure (\<lambda>n. n)") auto

declare str_nat.simps [simp del]

text \<open>
  \<^verbatim>\<open>otp = str(int(random.random() * 1000000)); otp = otp + "0" * (6 - len(otp))\<close>.
  The argument is the integer drawn, \<^verbatim>\<open>int(random.random() * 1000000)\<close>. A string
  times a negative number is the empty string in Python, as the truncating subtraction
  of \<open>nat\<close> gives here.
\<close>

definition generate_otp :: "nat \<Rightarrow> string" where
  "generate_otp n = (let otp = str_nat n in otp @ replicate (6 - length otp) CHR ''0'')"

definition is_digit :: "char \<Rightarrow> bool" where
  "is_digit c = (c \<in> set ''0123456789'')"

subsection \<open>Request payloads\<close>

text \<open>
  \<^verbatim>\<open>schemas.RecruiterRegistration\<close>: the fields \<^verbatim>\<open>register_recruiter\<close> reads from it.
\<close>

record RecruiterRegistration =
  reg_name :: string
  reg_email :: string
  reg_password :: string
  reg_phone :: "string option"
  reg_designation :: "string option"
  reg_company_name :: "string option"
  reg_industry :: "string option"
  reg_country :: "string option"
  reg_state :: "string option"
  reg_city :: "string option"
  reg_zip :: "string option"
  reg_address :: "string option"

text \<open>\<^verbatim>\<open>schemas.RecruiterLogin\<close>: the fields \<^verbatim>\<open>login_recruiter\<close> reads from it.\<close>

record RecruiterLogin =
  login_email :: string
  login_password :: string

text \<open>
  Modelled from the spec: the declaration of \<^verbatim>\<open>schemas.UpdateRecruiter\<close> is not part of the
  module. Its fields are the profile attributes the specification lists (name, phone,
  designation, company name, logo and website, industry, company-size bounds, address
  fields) and the new plaintext password, each optional.
\<close>

record UpdateRecruiter =
  upd_name :: "string option"
  upd_phone :: "string option"
  upd_designation :: "string option"
  upd_company_name :: "string option"
  upd_company_logo :: "string option"
  upd_website :: "string option"
  upd_industry :: "string option"
  upd_min_company_size :: "int option"
  upd_max_company_size :: "int option"
  upd_country :: "string option"
  upd_state :: "string option"
  upd_city :: "string option"
  upd_zip :: "string option"
  upd_address :: "string option"
  upd_password :: "string option"

subsection \<open>Response bodies\<close>

definition jopt :: "('a \<Rightarrow> json) \<Rightarrow> 'a option \<Rightarrow> json" where
  "jopt f v = (case v of None \<Rightarrow> JNull | Some x \<Rightarrow> f x)"

text \<open>
  The eighteen columns of the \<^verbatim>\<open>RETURNING\<close> clause of \<^verbatim>\<open>upate_recruiter\<close>, as a mapping.
\<close>

definition returned_columns :: "Recruiter \<Rightarrow> body" where
  "returned_columns r =
    [(''id'', JInt (id_col r)),
     (''name'', JStr (name r)),
     (''email'', JStr (email r)),
     (''email_verified'', JBool (email_verified r)),
     (''phone'', jopt JStr (phone r)),
     (''designation'', jopt JStr (designation r)),
     (''company_name'', jopt JStr (company_name r)),
     (''company_logo'', jopt JStr (company_logo r)),
     (''website'', jopt JStr (website r)),
     (''industry'', jopt JStr (industry r)),
     (''min_company_size'', jopt JInt (min_company_size r)),
     (''max_company_size'', jopt JInt (max_company_size r)),
     (''country'', jopt JStr (country r)),
     (''state'', jopt JStr (state r)),
     (''city'', jopt JStr (city r)),
     (''zip'', jopt JStr (zip_col r)),
     (''address'', jopt JStr (address r)),
     (''verified'', JBool (verified r))]"

text \<open>
  Modelled from the spec: the declaration of the response model \<^verbatim>\<open>schemas.Recruiter\<close> is not
  part of the module. The specification calls it the public profile, with the password
  hash excluded; it is given the columns that \<^verbatim>\<open>upate_recruiter\<close> returns.
\<close>

definition public_profile :: "Recruiter \<Rightarrow> body" where
  "public_profile r = returned_columns r"

text \<open>
  The twenty-one columns selected by \<^verbatim>\<open>login_recruiter\<close> (lines 54--76), as a mapping in
  the order of the \<^verbatim>\<open>select\<close>.
\<close>

definition login_columns :: "Recruiter \<Rightarrow> body" where
  "login_columns r =
    [(''id'', JInt (id_col r)),
     (''name'', JStr (name r)),
     (''email'', JStr (email r)),
     (''password_hash'', JStr (password_hash r)),
     (''email_verified'', JBool (email_verified r)),
     (''phone'', jopt JStr (phone r)),
     (''designation'', jopt JStr (designation r)),
     (''company_name'', jopt JStr (company_name r)),
     (''company_logo'', jopt JStr (company_logo r)),
     (''website'', jopt JStr (website r)),
     (''industry'', jopt JStr (industry r)),
     (''min_company_size'', jopt JInt (min_company_size r)),
     (''max_company_size'', jopt JInt (max_company_size r)),
     (''country'', jopt JStr (country r)),
     (''state'', jopt JStr (state r)),
     (''city'', jopt JStr (city r)),
     (''zip'', jopt JStr (zip_col r)),
     (''address'', jopt JStr (address r)),
     (''verified'', JBool (verified r)),
     (''created_at'', JDateTime (created_at r)),
     (''updated_at'', JDateTime (updated_at r))]"

text \<open>\<^verbatim>\<open>dict.pop(key)\<close> on a mapping that holds the key.\<close>

definition pop :: "string \<Rightarrow> body \<Rightarrow> body" where
  "pop k b = filter (\<lambda>kv. fst kv \<noteq> k) b"

text \<open>
  A handler that returns the mapped entity itself and declares no response model
  (\<^verbatim>\<open>verify_recruiter_access_token\<close>, \<^verbatim>\<open>verify_otp\<close>): the framework encodes every column
  of the row.
\<close>

definition entity_columns :: "Recruiter \<Rightarrow> body" where
  "entity_columns r =
    login_columns r @
    [(''email_otp'', jopt JStr (email_otp r)),
     (''email_otp_expiry'', jopt JDateTime (email_otp_expiry r))]"

definition ok :: "nat \<Rightarrow> (string \<times> string) list \<Rightarrow> body \<Rightarrow> response" where
  "ok sc hs b = \<lparr>status_code = sc, headers = hs, content = b\<rparr>"

definition bearer :: "string \<Rightarrow> (string \<times> string) list" where
  "bearer tok = [(''Authorization'', ''Bearer '' @ tok)]"

subsection \<open>register\_recruiter (lines 19--44)\<close>

text \<open>
  Modelled from the spec: the declaration of \<^verbatim>\<open>models.Recruiter\<close> is not part of the module.
  The specification gives what the table does at an insert: the identifier is assigned
  at creation and unique, \<^verbatim>\<open>email_verified\<close> starts false, the administrative flag
  \<^verbatim>\<open>verified\<close> is set by no operation, the timestamps are assigned by the server, the
  columns the handler does not set are null, and an email already present violates
  uniqueness (the commit raises).
\<close>

definition next_id :: "store \<Rightarrow> int" where
  "next_id db = fold max (map id_col db) 0 + 1"

definition new_row :: "RecruiterRegistration \<Rightarrow> string \<Rightarrow> datetime \<Rightarrow> store \<Rightarrow> Recruiter" where
  "new_row recruiter_data pw_hash now db =
    \<lparr>id_col = next_id db,
     name = reg_name recruiter_data,
     email = reg_email recruiter_data,
     password_hash = pw_hash,
     email_verified = False,
     phone = reg_phone recruiter_data,
     designation = reg_designation recruiter_data,
     company_name = reg_company_name recruiter_data,
     company_logo = None,
     website = None,
     industry = reg_industry recruiter_data,
     min_company_size = None,
     max_company_size = None,
     country = reg_country recruiter_data,
     state = reg_state recruiter_data,
     city = reg_city recruiter_data,
     zip_col = reg_zip recruiter_data,
     address = reg_address recruiter_data,
     verified = False,
     created_at = now,
     updated_at = now,
     email_otp = None,
     email_otp_expiry = None\<rparr>"

definition register_recruiter ::
  "env \<Rightarrow> RecruiterRegistration \<Rightarrow> datetime \<Rightarrow> store \<Rightarrow> response result \<times> store" where
  "register_recruiter env recruiter_data now db =
    (let pw_hash = hash_password env (reg_password recruiter_data);
         db_user = new_row recruiter_data pw_hash now db
     in if \<exists>r \<in> set db. email r = reg_email recruiter_data
        then (Inl IntegrityError, db)
        else (Inr (ok 201 [] (public_profile db_user)), db @ [db_user]))"

subsection \<open>login\_recruiter (lines 47--98)\<close>

definition login_recruiter ::
  "env \<Rightarrow> RecruiterLogin \<Rightarrow> datetime \<Rightarrow> store \<Rightarrow> response result \<times> store" where
  "login_recruiter env login_data now db =
    (case one (filter (\<lambda>r. email r = login_email login_data) db) of
       Inl e \<Rightarrow> (Inl e, db)
     | Inr recruiter \<Rightarrow>
        (let password_match = verify_password env (login_password login_data) (password_hash recruiter)
         in if \<not> password_match
            then (Inr (ok 500 [] [(''message'', JStr ''invalid credentials'')]), db)
            else
              (let encoded_jwt = jwt_encode env (id_col recruiter) (now + timedelta_days 1);
                   recruiter_data = pop ''password_hash'' (login_columns recruiter)
               in (Inr (ok 200 (bearer encoded_jwt) recruiter_data), db))))"

subsection \<open>get\_recruiter (lines 101--111)\<close>

text \<open>
  The protected handlers run after the dependency \<^verbatim>\<open>authorize_recruiter\<close> has produced the
  recruiter's identifier, which is their argument here.
\<close>

definition get_recruiter :: "int \<Rightarrow> store \<Rightarrow> response result \<times> store" where
  "get_recruiter recruiter_id db =
    (case first_row (filter (\<lambda>r. id_col r = recruiter_id) db) of
       Inl e \<Rightarrow> (Inl e, db)
     | Inr recruiter \<Rightarrow> (Inr (ok 200 [] (public_profile recruiter)), db))"

subsection \<open>upate\_recruiter (lines 114--160)\<close>

definition or_keep :: "'a option \<Rightarrow> 'a \<Rightarrow> 'a" where
  "or_keep v old = (case v of None \<Rightarrow> old | Some x \<Rightarrow> x)"

definition or_keep_opt :: "'a option \<Rightarrow> 'a option \<Rightarrow> 'a option" where
  "or_keep_opt v old = (case v of None \<Rightarrow> old | Some x \<Rightarrow> Some x)"

text \<open>
  \<^verbatim>\<open>data = recruiter_data.model_dump(exclude_none=True)\<close> without \<^verbatim>\<open>password\<close> and, when a
  hash was computed and is not empty, with \<^verbatim>\<open>password_hash\<close>: the assignment
  \<^verbatim>\<open>.values(data)\<close> makes to a row.
\<close>

definition values_of :: "UpdateRecruiter \<Rightarrow> string option \<Rightarrow> Recruiter \<Rightarrow> Recruiter" where
  "values_of recruiter_data pw_hash r =
    r\<lparr>name := or_keep (upd_name recruiter_data) (name r),
      phone := or_keep_opt (upd_phone recruiter_data) (phone r),
      designation := or_keep_opt (upd_designation recruiter_data) (designation r),
      company_name := or_keep_opt (upd_company_name recruiter_data) (company_name r),
      company_logo := or_keep_opt (upd_company_logo recruiter_data) (company_logo r),
      website := or_keep_opt (upd_website recruiter_data) (website r),
      industry := or_keep_opt (upd_industry recruiter_data) (industry r),
      min_company_size := or_keep_opt (upd_min_company_size recruiter_data) (min_company_size r),
      max_company_size := or_keep_opt (upd_max_company_size recruiter_data) (max_company_size r),
      country := or_keep_opt (upd_country recruiter_data) (country r),
      state := or_keep_opt (upd_state recruiter_data) (state r),
      city := or_keep_opt (upd_city recruiter_data) (city r),
      zip_col := or_keep_opt (upd_zip recruiter_data) (zip_col r),
      address := or_keep_opt (upd_address recruiter_data) (address r),
      password_hash :=
        (case pw_hash of
           None \<Rightarrow> password_hash r
         | Some h \<Rightarrow> if h \<noteq> [] then h else password_hash r)\<rparr>"

definition upate_recruiter ::
  "env \<Rightarrow> UpdateRecruiter \<Rightarrow> int \<Rightarrow> store \<Rightarrow> response result \<times> store" where
  "upate_recruiter env recruiter_data recruiter_id db =
    (let pw_hash =
           (case upd_password recruiter_data of
              None \<Rightarrow> None
            | Some p \<Rightarrow> if p \<noteq> [] then Some (hash_password env p) else None);
         p = (\<lambda>r. id_col r = recruiter_id);
         db' = update_where p (values_of recruiter_data pw_hash) db;
         result = returning p (values_of recruiter_data pw_hash) db
     in case first_row result of
          Inl e \<Rightarrow> (Inl e, db')
        | Inr recruiter \<Rightarrow> (Inr (ok 200 [] (returned_columns recruiter)), db'))"

subsection \<open>verify\_recruiter\_access\_token (lines 163--171)\<close>

definition verify_recruiter_access_token :: "int \<Rightarrow> store \<Rightarrow> response result \<times> store" where
  "verify_recruiter_access_token recruiter_id db =
    (case first_row (filter (\<lambda>r. id_col r = recruiter_id) db) of
       Inl e \<Rightarrow> (Inl e, db)
     | Inr recruiter \<Rightarrow> (Inr (ok 200 [] (entity_columns recruiter)), db))"

subsection \<open>send\_otp (lines 174--196)\<close>

text \<open>
  The arguments after the email are the integer drawn by the random generator and the
  clock reading of line 186. The email is sent first (line 181), and what the call
  returns is dropped; the \<^verbatim>\<open>UPDATE\<close> runs whenever that call has returned.
\<close>

definition send_otp :: "env \<Rightarrow> string \<Rightarrow> nat \<Rightarrow> datetime \<Rightarrow> store \<Rightarrow> response result \<times> store" where
  "send_otp env send_email draw now db =
    (let otp = generate_otp draw
     in case send_otp_email env send_email otp ''1 min'' of
          Inl e \<Rightarrow> (Inl e, db)
        | Inr u \<Rightarrow>
           (Inr (ok 200 [] [(''message'', JStr ''successfully sent otp'')]),
            update_where (\<lambda>r. email r = send_email)
              (\<lambda>r. r\<lparr>email_otp := Some otp,
                     email_otp_expiry := Some (now + timedelta_seconds 60)\<rparr>) db))"

subsection \<open>verify\_otp (lines 199--239)\<close>

text \<open>
  The two clock readings are the one compared with the stored expiry (line 210) and the
  later one the token's expiry is computed from (line 233). Comparing a null expiry with
  a timestamp raises \<^verbatim>\<open>TypeError\<close>.
\<close>

definition verify_otp ::
  "env \<Rightarrow> string \<Rightarrow> string \<Rightarrow> datetime \<Rightarrow> datetime \<Rightarrow> store \<Rightarrow> response result \<times> store" where
  "verify_otp env v_email v_otp now now_token db =
    (case one (filter (\<lambda>r. email r = v_email) db) of
       Inl e \<Rightarrow> (Inl e, db)
     | Inr recruiter \<Rightarrow>
        (case email_otp_expiry recruiter of
           None \<Rightarrow> (Inl TypeError, db)
         | Some expiry \<Rightarrow>
            if expiry < now
            then (Inr (ok 400 [] [(''message'', JStr ''otp expired'')]), db)
            else if email_otp recruiter \<noteq> Some v_otp
            then (Inr (ok 400 [] [(''message'', JStr ''invalid otp'')]), db)
            else
              (let p = (\<lambda>r. email r = v_email);
                   f = (\<lambda>r. r\<lparr>email_verified := True\<rparr>);
                   db' = update_where p f db
               in case first_row (returning p f db) of
                    Inl e \<Rightarrow> (Inl e, db')
                  | Inr recruiter' \<Rightarrow>
                     (let encoded_jwt =
                            jwt_encode env (id_col recruiter') (now_token + timedelta_days 1)
                      in (Inr (ok 200 (bearer encoded_jwt) (entity_columns recruiter')), db')))))"

subsection \<open>The subsystem as a whole\<close>

text \<open>
  One request to the subsystem, with what the handler reads from its surroundings while
  it runs (clock readings, the random draw).
\<close>

datatype call =
  Register RecruiterRegistration datetime
  | Login RecruiterLogin datetime
  | Fetch int
  | Update UpdateRecruiter int
  | VerifyToken int
  | SendOtp string nat datetime
  | VerifyOtp string string datetime datetime

fun handle :: "env \<Rightarrow> call \<Rightarrow> store \<Rightarrow> response result \<times> store" where
  "handle env (Register d now) db = register_recruiter env d now db"
| "handle env (Login d now) db = login_recruiter env d now db"
| "handle env (Fetch i) db = get_recruiter i db"
| "handle env (Update d i) db = upate_recruiter env d i db"
| "handle env (VerifyToken i) db = verify_recruiter_access_token i db"
| "handle env (SendOtp e n now) db = send_otp env e n now db"
| "handle env (VerifyOtp e c now now_token) db = verify_otp env e c now now_token db"

text \<open>
  The outcome of OTP validation, as the caller reads it off the response of
  \<^verbatim>\<open>verify_otp\<close>: the two rejections are told apart by their message.
\<close>

datatype Outcome = Expired | Mismatch | Accepted

definition outcome :: "response result \<Rightarrow> Outcome option" where
  "outcome res =
    (case res of
       Inl e \<Rightarrow> None
     | Inr resp \<Rightarrow>
        if status_code resp = 400 \<and> content resp = [(''message'', JStr ''otp expired'')] then Some Expired
        else if status_code resp = 400 \<and> content resp = [(''message'', JStr ''invalid otp'')] then Some Mismatch
        else if status_code resp = 200 then Some Accepted
        else None)"

subsection \<open>Sample data\<close>

text \<open>
  A concrete environment and a registered, unverified recruiter holding the code
  \<open>123456\<close> with expiry \<open>100\<close>, on which the theorems below are instantiated. In
  \<open>env_down\<close> the mail service raises; in \<open>env_silent\<close> it returns, reporting that the
  message was not delivered.
\<close>

definition env0 :: env where
  "env0 = \<lparr>hash_password = (\<lambda>p. ''h:'' @ p),
           verify_password = (\<lambda>p h. h = ''h:'' @ p),
           jwt_encode = (\<lambda>i e. ''jwt.'' @ str_nat (nat i) @ ''.'' @ str_nat (nat e)),
           send_otp_email = (\<lambda>a c t. Inr Delivered)\<rparr>"

definition env_down :: env where
  "env_down = env0\<lparr>send_otp_email := (\<lambda>a c t. Inl (DeliveryError ''smtp''))\<rparr>"

definition env_silent :: env where
  "env_silent = env0\<lparr>send_otp_email := (\<lambda>a c t. Inr NotDelivered)\<rparr>"

definition alice :: Recruiter where
  "alice = \<lparr>id_col = 1, name = ''Alice'', email = ''a@x.com'', password_hash = ''h:p1'',
     email_verified = False, phone = None, designation = None, company_name = None,
     company_logo = None, website = None, industry = None, min_company_size = None,
     max_company_size = None, country = None, state = None, city = None, zip_col = None,
     address = None, verified = False, created_at = 0, updated_at = 0,
     email_otp = Some ''123456'', email_otp_expiry = Some 100\<rparr>"

definition bob :: Recruiter where
  "bob = alice\<lparr>id_col := 2, name := ''Bob'', email := ''b@x.com'', email_verified := True\<rparr>"

section \<open>Properties\<close>

subsection \<open>Helper lemmas\<close>

lemma one_Inr: "one xs = Inr x \<longleftrightarrow> xs = [x]"
  by (cases xs rule: one.cases) auto

lemma length_update_where [simp]: "length (update_where p f db) = length db"
  by (simp add: update_where_def)

lemma nth_update_where:
  "i < length db \<Longrightarrow> update_where p f db ! i = (if p (db ! i) then f (db ! i) else db ! i)"
  by (simp add: update_where_def)

lemma update_where_none: "\<forall>r \<in> set db. \<not> p r \<Longrightarrow> update_where p f db = db"
  by (induction db) (auto simp: update_where_def)

lemma filter_update_where_same:
  fixes db :: store
  shows "filter (\<lambda>r. email r = e) (update_where (\<lambda>r. email r = e) (\<lambda>r. r\<lparr>email_verified := True\<rparr>) db)
         = map (\<lambda>r. r\<lparr>email_verified := True\<rparr>) (filter (\<lambda>r. email r = e) db)"
  by (induction db) (auto simp: update_where_def)

subsection \<open>OTP generation\<close>

lemma digit_char_is_digit: "d < 10 \<Longrightarrow> is_digit (digit_char d)"
proof -
  assume "d < 10"
  then have "d \<in> {0,1,2,3,4,5,6,7,8,9}" by auto
  then show ?thesis by (auto simp: is_digit_def digit_char_def)
qed

lemma str_nat_digits: "\<forall>c \<in> set (str_nat n). is_digit c"
proof (induction n rule: str_nat.induct)
  case (1 n)
  show ?case
  proof (cases "n < 10")
    case True
    then show ?thesis by (subst str_nat.simps) (simp add: digit_char_is_digit)
  next
    case False
    with 1 show ?thesis by (subst str_nat.simps) (simp add: digit_char_is_digit)
  qed
qed

lemma str_nat_length: "n < 10 ^ k \<Longrightarrow> 0 < k \<Longrightarrow> length (str_nat n) \<le> k"
proof (induction n arbitrary: k rule: str_nat.induct)
  case (1 n)
  show ?case
  proof (cases "n < 10")
    case True
    then show ?thesis using 1(3) by (subst str_nat.simps) simp
  next
    case False
    obtain j where k: "k = Suc j" using 1(3) by (cases k) auto
    have "j \<noteq> 0" using False 1(2) k by (cases j) auto
    moreover have "n div 10 < 10 ^ j"
      using 1(2) k by (simp add: less_mult_imp_div_less mult.commute)
    ultimately have "length (str_nat (n div 10)) \<le> j" using 1(1)[OF False, of j] by simp
    then show ?thesis using False k by (subst str_nat.simps) simp
  qed
qed

text \<open>
  C6 (as amended). For every integer \<open>n\<close> drawn by the OTP generator, \<open>0 \<le> n < 1000000\<close>,
  the generated code is the decimal representation of \<open>n\<close> padded with zeros on the
  right to width 6; it has 6 characters and each of them is a decimal digit, so it
  matches \<^verbatim>\<open>^[0-9]{6}$\<close>.
\<close>

theorem generate_otp_right_padded:
  "n < 1000000 \<Longrightarrow>
     generate_otp n = str_nat n @ replicate (6 - length (str_nat n)) CHR ''0'' \<and>
     length (generate_otp n) = 6 \<and> (\<forall>c \<in> set (generate_otp n). is_digit c)"
proof -
  assume n: "n < 1000000"
  have "length (str_nat n) \<le> 6" using str_nat_length[of n 6] n by simp
  moreover have "is_digit CHR ''0''" by (simp add: is_digit_def)
  ultimately show ?thesis using str_nat_digits[of n]
    by (auto simp: generate_otp_def Let_def)
qed

theorem generate_otp_right_padded_witness:
  "(42::nat) < 1000000 \<and> generate_otp 42 = ''420000'' \<and>
   length (generate_otp 42) = 6 \<and> list_all is_digit (generate_otp 42)"
proof -
  have h: "(42::nat) < 1000000" by simp
  have e: "generate_otp 42 = ''420000''" by code_simp
  have "list_all is_digit (generate_otp 42)"
    using generate_otp_right_padded[OF h] by (simp add: list_all_iff)
  then show ?thesis using generate_otp_right_padded[OF h] h e by blast
qed

text \<open>
  The claim as written has the zeros on the left: drawing 42 would give \<open>000042\<close>.
  The code gives \<open>420000\<close>.
\<close>

theorem generate_otp_left_pad_counterexample:
  "generate_otp 42 = ''420000'' \<and> generate_otp 42 \<noteq> ''000042''"
  by code_simp

subsection \<open>OTP validation\<close>

text \<open>
  C1 (as amended). For every recruiter with a stored OTP code and expiry, every presented
  code and every validation time \<open>now\<close>, verify-otp answers Expired whenever
  \<open>expiry < now\<close> (whether or not the presented code matches), Mismatch when
  \<open>now \<le> expiry\<close> and the presented code differs from the stored one, and Accepted when
  \<open>now \<le> expiry\<close> and the codes are equal; validating exactly at \<open>now = expiry\<close> is
  decided by the code comparison alone.
\<close>

theorem verify_otp_outcome:
  assumes "filter (\<lambda>r. email r = e) db = [r]"
    and "email_otp r = Some code" and "email_otp_expiry r = Some expiry"
  shows "outcome (fst (verify_otp env e presented now now_token db)) =
           Some (if expiry < now then Expired
                 else if presented \<noteq> code then Mismatch else Accepted)"
  using assms by (auto simp: verify_otp_def outcome_def ok_def returning_def Let_def)

theorem verify_otp_outcome_witness:
  "filter (\<lambda>r. email r = ''a@x.com'') [alice] = [alice] \<and>
   email_otp alice = Some ''123456'' \<and> email_otp_expiry alice = Some 100 \<and>
   outcome (fst (verify_otp env0 ''a@x.com'' ''123456'' 101 101 [alice])) = Some Expired \<and>
   outcome (fst (verify_otp env0 ''a@x.com'' ''654321'' 100 100 [alice])) = Some Mismatch \<and>
   outcome (fst (verify_otp env0 ''a@x.com'' ''123456'' 99 99 [alice])) = Some Accepted"
proof -
  have h1: "filter (\<lambda>r. email r = ''a@x.com'') [alice] = [alice]" by (simp add: alice_def)
  have h2: "email_otp alice = Some ''123456''" by (simp add: alice_def)
  have h3: "email_otp_expiry alice = Some 100" by (simp add: alice_def)
  show ?thesis
    using h1 h2 h3
      verify_otp_outcome[OF h1 h2 h3, where env = env0 and presented = "''123456''"
        and now = 101 and now_token = 101]
      verify_otp_outcome[OF h1 h2 h3, where env = env0 and presented = "''654321''"
        and now = 100 and now_token = 100]
      verify_otp_outcome[OF h1 h2 h3, where env = env0 and presented = "''123456''"
        and now = 99 and now_token = 99]
    by simp
qed

text \<open>
  The claim as written answers Expired at \<open>now = expiry\<close>. With the stored expiry 100,
  the right code presented at time 100 is accepted.
\<close>

theorem verify_otp_at_expiry_counterexample:
  "email_otp_expiry alice = Some 100 \<and>
   outcome (fst (verify_otp env0 ''a@x.com'' ''123456'' 100 100 [alice])) = Some Accepted \<and>
   outcome (fst (verify_otp env0 ''a@x.com'' ''123456'' 100 100 [alice])) \<noteq> Some Expired"
  by (simp add: verify_otp_def outcome_def ok_def returning_def Let_def alice_def)

text \<open>
  C5. For every verify-otp request with a registered email whose stored OTP is unexpired
  (\<open>now < expiry\<close>) and equals the presented code, the operation sets the recruiter's
  \<open>email_verified\<close> to true, answers 200 with the updated profile (every column of the
  recruiter's row under its name, \<open>email_verified\<close> true, null for an absent value),
  and sets the response's Authorization header to \<open>Bearer <token>\<close>, where the token
  is \<^verbatim>\<open>jwt.encode\<close> of the recruiter's id and of an expiry 24 hours after the clock
  reading taken when the token is issued.
\<close>

theorem verify_otp_accepted:
  assumes "filter (\<lambda>r. email r = e) db = [r]"
    and "email_otp r = Some code" and "email_otp_expiry r = Some expiry"
    and "now < expiry"
  shows "\<exists>resp. fst (verify_otp env e code now now_token db) = Inr resp \<and>
           status_code resp = 200 \<and>
           content resp =
             [(''id'', JInt (id_col r)),
              (''name'', JStr (name r)),
              (''email'', JStr (email r)),
              (''password_hash'', JStr (password_hash r)),
              (''email_verified'', JBool True),
              (''phone'', (case phone r of None \<Rightarrow> JNull | Some v \<Rightarrow> JStr v)),
              (''designation'', (case designation r of None \<Rightarrow> JNull | Some v \<Rightarrow> JStr v)),
              (''company_name'', (case company_name r of None \<Rightarrow> JNull | Some v \<Rightarrow> JStr v)),
              (''company_logo'', (case company_logo r of None \<Rightarrow> JNull | Some v \<Rightarrow> JStr v)),
              (''website'', (case website r of None \<Rightarrow> JNull | Some v \<Rightarrow> JStr v)),
              (''industry'', (case industry r of None \<Rightarrow> JNull | Some v \<Rightarrow> JStr v)),
              (''min_company_size'', (case min_company_size r of None \<Rightarrow> JNull | Some v \<Rightarrow> JInt v)),
              (''max_company_size'', (case max_company_size r of None \<Rightarrow> JNull | Some v \<Rightarrow> JInt v)),
              (''country'', (case country r of None \<Rightarrow> JNull | Some v \<Rightarrow> JStr v)),
              (''state'', (case state r of None \<Rightarrow> JNull | Some v \<Rightarrow> JStr v)),
              (''city'', (case city r of None \<Rightarrow> JNull | Some v \<Rightarrow> JStr v)),
              (''zip'', (case zip_col r of None \<Rightarrow> JNull | Some v \<Rightarrow> JStr v)),
              (''address'', (case address r of None \<Rightarrow> JNull | Some v \<Rightarrow> JStr v)),
              (''verified'', JBool (verified r)),
              (''created_at'', JDateTime (created_at r)),
              (''updated_at'', JDateTime (updated_at r)),
              (''email_otp'', JStr code),
              (''email_otp_expiry'', JDateTime expiry)] \<and>
           headers resp = [(''Authorization'',
              ''Bearer '' @ jwt_encode env (id_col r) (now_token + 24 * 3600 * 1000000))] \<and>
           filter (\<lambda>r. email r = e) (snd (verify_otp env e code now now_token db)) =
             [r\<lparr>email_verified := True\<rparr>]"
  using assms
  by (simp add: verify_otp_def ok_def returning_def Let_def bearer_def
      timedelta_days_def timedelta_seconds_def filter_update_where_same
      entity_columns_def login_columns_def jopt_def)

theorem verify_otp_accepted_witness:
  "filter (\<lambda>r. email r = ''a@x.com'') [alice, bob] = [alice] \<and>
   email_otp alice = Some ''123456'' \<and> email_otp_expiry alice = Some 100 \<and> (50::int) < 100 \<and>
   (\<exists>resp. fst (verify_otp env0 ''a@x.com'' ''123456'' 50 60 [alice, bob]) = Inr resp \<and>
      status_code resp = 200 \<and>
      content resp =
        [(''id'', JInt (id_col alice)),
         (''name'', JStr (name alice)),
         (''email'', JStr (email alice)),
         (''password_hash'', JStr (password_hash alice)),
         (''email_verified'', JBool True),
         (''phone'', (case phone alice of None \<Rightarrow> JNull | Some v \<Rightarrow> JStr v)),
         (''designation'', (case designation alice of None \<Rightarrow> JNull | Some v \<Rightarrow> JStr v)),
         (''company_name'', (case company_name alice of None \<Rightarrow> JNull | Some v \<Rightarrow> JStr v)),
         (''company_logo'', (case company_logo alice of None \<Rightarrow> JNull | Some v \<Rightarrow> JStr v)),
         (''website'', (case website alice of None \<Rightarrow> JNull | Some v \<Rightarrow> JStr v)),
         (''industry'', (case industry alice of None \<Rightarrow> JNull | Some v \<Rightarrow> JStr v)),
         (''min_company_size'', (case min_company_size alice of None \<Rightarrow> JNull | Some v \<Rightarrow> JInt v)),
         (''max_company_size'', (case max_company_size alice of None \<Rightarrow> JNull | Some v \<Rightarrow> JInt v)),
         (''country'', (case country alice of None \<Rightarrow> JNull | Some v \<Rightarrow> JStr v)),
         (''state'', (case state alice of None \<Rightarrow> JNull | Some v \<Rightarrow> JStr v)),
         (''city'', (case city alice of None \<Rightarrow> JNull | Some v \<Rightarrow> JStr v)),
         (''zip'', (case zip_col alice of None \<Rightarrow> JNull | Some v \<Rightarrow> JStr v)),
         (''address'', (case address alice of None \<Rightarrow> JNull | Some v \<Rightarrow> JStr v)),
         (''verified'', JBool (verified alice)),
         (''created_at'', JDateTime (created_at alice)),
         (''updated_at'', JDateTime (updated_at alice)),
         (''email_otp'', JStr ''123456''),
         (''email_otp_expiry'', JDateTime 100)] \<and>
      headers resp = [(''Authorization'',
         ''Bearer '' @ jwt_encode env0 (id_col alice) (60 + 24 * 3600 * 1000000))] \<and>
      filter (\<lambda>r. email r = ''a@x.com'')
        (snd (verify_otp env0 ''a@x.com'' ''123456'' 50 60 [alice, bob])) =
        [alice\<lparr>email_verified := True\<rparr>])"
proof -
  have h1: "filter (\<lambda>r. email r = ''a@x.com'') [alice, bob] = [alice]"
    by (simp add: alice_def bob_def)
  have h2: "email_otp alice = Some ''123456''" by (simp add: alice_def)
  have h3: "email_otp_expiry alice = Some 100" by (simp add: alice_def)
  have h4: "(50::int) < 100" by simp
  show ?thesis
    using h1 h2 h3 h4
      verify_otp_accepted[OF h1 h2 h3 h4, where env = env0 and now_token = 60]
    by blast
qed

text \<open>
  C9. For every successful verify-otp request (answered 200), the only recruiter field
  mutated is \<open>email_verified\<close>, set to true on the rows of the requested email: every
  row of the table is either unchanged or differs in that field alone; in particular the
  stored \<open>email_otp\<close> and \<open>email_otp_expiry\<close> are not cleared.
\<close>

theorem verify_otp_frame:
  assumes "fst (verify_otp env e presented now now_token db) = Inr resp"
    and "status_code resp = 200"
  shows "snd (verify_otp env e presented now now_token db) =
           map (\<lambda>r. if email r = e then r\<lparr>email_verified := True\<rparr> else r) db \<and>
         map email_otp (snd (verify_otp env e presented now now_token db)) = map email_otp db \<and>
         map email_otp_expiry (snd (verify_otp env e presented now now_token db)) =
           map email_otp_expiry db"
proof -
  have s: "snd (verify_otp env e presented now now_token db) =
           map (\<lambda>r. if email r = e then r\<lparr>email_verified := True\<rparr> else r) db"
    using assms
    by (auto simp: verify_otp_def ok_def returning_def update_where_def Let_def
        split: sum.splits option.splits if_splits)
  have "map email_otp (map (\<lambda>r. if email r = e then r\<lparr>email_verified := True\<rparr> else r) db)
          = map email_otp db"
    by (induction db) auto
  moreover have "map email_otp_expiry
      (map (\<lambda>r. if email r = e then r\<lparr>email_verified := True\<rparr> else r) db)
          = map email_otp_expiry db"
    by (induction db) auto
  ultimately show ?thesis using s by simp
qed

theorem verify_otp_frame_witness:
  "fst (verify_otp env0 ''a@x.com'' ''123456'' 50 60 [alice, bob]) =
     Inr (ok 200 (bearer (jwt_encode env0 1 (60 + timedelta_days 1)))
            (entity_columns (alice\<lparr>email_verified := True\<rparr>))) \<and>
   status_code (ok 200 (bearer (jwt_encode env0 1 (60 + timedelta_days 1)))
            (entity_columns (alice\<lparr>email_verified := True\<rparr>))) = 200 \<and>
   snd (verify_otp env0 ''a@x.com'' ''123456'' 50 60 [alice, bob]) =
     [alice\<lparr>email_verified := True\<rparr>, bob] \<and>
   map email_otp (snd (verify_otp env0 ''a@x.com'' ''123456'' 50 60 [alice, bob])) =
     [Some ''123456'', Some ''123456'']"
proof -
  have h1: "fst (verify_otp env0 ''a@x.com'' ''123456'' 50 60 [alice, bob]) =
     Inr (ok 200 (bearer (jwt_encode env0 1 (60 + timedelta_days 1)))
            (entity_columns (alice\<lparr>email_verified := True\<rparr>)))"
    by (simp add: verify_otp_def returning_def alice_def bob_def Let_def)
  have h2: "status_code (ok 200 (bearer (jwt_encode env0 1 (60 + timedelta_days 1)))
            (entity_columns (alice\<lparr>email_verified := True\<rparr>))) = 200"
    by (simp add: ok_def)
  have e: "email alice = ''a@x.com''" "email bob \<noteq> ''a@x.com''"
    "email_otp alice = Some ''123456''" "email_otp bob = Some ''123456''"
    by (simp_all add: alice_def bob_def)
  show ?thesis using h1 h2 verify_otp_frame[OF h1 h2] e by simp
qed

text \<open>
  C10. For every verify-otp request whose email belongs to no registered recruiter, or
  whose recruiter has a null \<open>email_otp_expiry\<close> because no OTP was ever issued, the
  operation raises an exception that nothing handles (the row lookup fails with
  \<open>NoResultFound\<close>, or the null expiry is compared with a timestamp and \<open>TypeError\<close>
  is raised): the caller gets no typed failure response, and the table is unchanged.
\<close>

theorem verify_otp_raises:
  "(filter (\<lambda>r. email r = e) db = [] \<longrightarrow>
      verify_otp env e presented now now_token db = (Inl NoResultFound, db)) \<and>
   (filter (\<lambda>r. email r = e) db = [r] \<and> email_otp_expiry r = None \<longrightarrow>
      verify_otp env e presented now now_token db = (Inl TypeError, db))"
  by (simp add: verify_otp_def)

theorem verify_otp_raises_witness:
  "filter (\<lambda>r. email r = ''nobody@x.com'') [alice] = [] \<and>
   verify_otp env0 ''nobody@x.com'' ''123456'' 50 60 [alice] = (Inl NoResultFound, [alice]) \<and>
   filter (\<lambda>r. email r = ''a@x.com'') [alice\<lparr>email_otp := None, email_otp_expiry := None\<rparr>] =
     [alice\<lparr>email_otp := None, email_otp_expiry := None\<rparr>] \<and>
   email_otp_expiry (alice\<lparr>email_otp := None, email_otp_expiry := None\<rparr>) = None \<and>
   verify_otp env0 ''a@x.com'' ''123456'' 50 60 [alice\<lparr>email_otp := None, email_otp_expiry := None\<rparr>] =
     (Inl TypeError, [alice\<lparr>email_otp := None, email_otp_expiry := None\<rparr>])"
proof -
  have h1: "filter (\<lambda>r. email r = ''nobody@x.com'') [alice] = []" by (simp add: alice_def)
  have h2: "filter (\<lambda>r. email r = ''a@x.com'') [alice\<lparr>email_otp := None, email_otp_expiry := None\<rparr>] =
     [alice\<lparr>email_otp := None, email_otp_expiry := None\<rparr>]" by (simp add: alice_def)
  have h3: "email_otp_expiry (alice\<lparr>email_otp := None, email_otp_expiry := None\<rparr>) = None"
    by simp
  show ?thesis
    using h1 h2 h3
      verify_otp_raises[where e = "''nobody@x.com''" and db = "[alice]" and env = env0
        and presented = "''123456''" and now = 50 and now_token = 60]
      verify_otp_raises[where e = "''a@x.com''"
        and db = "[alice\<lparr>email_otp := None, email_otp_expiry := None\<rparr>]"
        and r = "alice\<lparr>email_otp := None, email_otp_expiry := None\<rparr>" and env = env0
        and presented = "''123456''" and now = 50 and now_token = 60]
    by blast
qed


subsection \<open>OTP issue\<close>

text \<open>
  C7 (as amended). For every send-otp request, the recruiter's stored \<open>email_otp\<close> and
  \<open>email_otp_expiry\<close> are left unchanged when the Email Delivery call raises: the
  exception leaves the handler before the \<^verbatim>\<open>UPDATE\<close> is executed, and the whole table is
  as it was. When the call returns, whatever it reports about the delivery, the new code
  and an expiry 60 seconds after the clock reading are committed to every recruiter
  with the email.
\<close>

theorem send_otp_commits_unless_raised:
  "(send_otp_email env e (generate_otp n) ''1 min'' = Inl x \<longrightarrow>
      send_otp env e n now db = (Inl x, db)) \<and>
   (send_otp_email env e (generate_otp n) ''1 min'' = Inr v \<longrightarrow>
      snd (send_otp env e n now db) =
        map (\<lambda>r. if email r = e
                 then r\<lparr>email_otp := Some (generate_otp n),
                        email_otp_expiry := Some (now + 60 * 1000000)\<rparr>
                 else r) db)"
  by (simp add: send_otp_def Let_def update_where_def timedelta_seconds_def)

theorem send_otp_commits_unless_raised_witness:
  "send_otp_email env_down ''a@x.com'' (generate_otp 42) ''1 min'' = Inl (DeliveryError ''smtp'') \<and>
   send_otp env_down ''a@x.com'' 42 7 [alice] = (Inl (DeliveryError ''smtp''), [alice]) \<and>
   send_otp_email env0 ''a@x.com'' (generate_otp 42) ''1 min'' = Inr Delivered \<and>
   snd (send_otp env0 ''a@x.com'' 42 7 [alice]) =
     [alice\<lparr>email_otp := Some ''420000'', email_otp_expiry := Some 60000007\<rparr>]"
proof -
  have h: "send_otp_email env_down ''a@x.com'' (generate_otp 42) ''1 min'' =
             Inl (DeliveryError ''smtp'')"
    by (simp add: env_down_def env0_def)
  have k: "send_otp_email env0 ''a@x.com'' (generate_otp 42) ''1 min'' = Inr Delivered"
    by (simp add: env0_def)
  have g: "generate_otp 42 = ''420000''" by code_simp
  have a: "email alice = ''a@x.com''" by (simp add: alice_def)
  have "send_otp env_down ''a@x.com'' 42 7 [alice] = (Inl (DeliveryError ''smtp''), [alice])"
    using h send_otp_commits_unless_raised[where env = env_down and e = "''a@x.com''"
        and n = 42 and now = 7 and db = "[alice]" and x = "DeliveryError ''smtp''"]
    by blast
  moreover have "snd (send_otp env0 ''a@x.com'' 42 7 [alice]) =
     [alice\<lparr>email_otp := Some ''420000'', email_otp_expiry := Some 60000007\<rparr>]"
    using k send_otp_commits_unless_raised[where env = env0 and e = "''a@x.com''"
        and n = 42 and now = 7 and db = "[alice]" and v = Delivered]
    by (simp add: g a)
  ultimately show ?thesis using h k by blast
qed

text \<open>
  The claim as written leaves the stored fields unchanged whenever the delivery fails.
  Here the mail service returns, reporting that the message was not delivered: the
  recruiter's code \<open>123456\<close> and expiry \<open>100\<close> are replaced all the same.
\<close>

theorem send_otp_unreported_failure_counterexample:
  "send_otp_email env_silent ''a@x.com'' (generate_otp 42) ''1 min'' = Inr NotDelivered \<and>
   email_otp alice = Some ''123456'' \<and> email_otp_expiry alice = Some 100 \<and>
   send_otp env_silent ''a@x.com'' 42 7 [alice] =
     (Inr \<lparr>status_code = 200, headers = [],
           content = [(''message'', JStr ''successfully sent otp'')]\<rparr>,
      [alice\<lparr>email_otp := Some ''420000'', email_otp_expiry := Some 60000007\<rparr>])"
proof -
  have g: "generate_otp 42 = ''420000''" by code_simp
  have a: "email alice = ''a@x.com''" "email_otp alice = Some ''123456''"
    "email_otp_expiry alice = Some 100"
    by (simp_all add: alice_def)
  show ?thesis
    by (simp add: send_otp_def Let_def ok_def update_where_def timedelta_seconds_def
        env_silent_def env0_def g a)
qed

text \<open>
  C2 (as amended). For every send-otp request whose Email Delivery call returns, the
  operation answers 200 with the success acknowledgement message, whether or not the
  email belongs to a registered recruiter; when it belongs to none, no recruiter record
  is changed.
\<close>

theorem send_otp_acknowledges:
  "send_otp_email env e (generate_otp n) ''1 min'' = Inr u \<Longrightarrow>
     fst (send_otp env e n now db) =
       Inr \<lparr>status_code = 200, headers = [],
            content = [(''message'', JStr ''successfully sent otp'')]\<rparr> \<and>
     ((\<forall>r \<in> set db. email r \<noteq> e) \<longrightarrow> snd (send_otp env e n now db) = db)"
  by (simp add: send_otp_def Let_def ok_def update_where_none)

theorem send_otp_acknowledges_witness:
  "send_otp_email env0 ''nobody@x.com'' (generate_otp 42) ''1 min'' = Inr Delivered \<and>
   email alice \<noteq> ''nobody@x.com'' \<and>
   fst (send_otp env0 ''nobody@x.com'' 42 7 [alice]) =
     Inr \<lparr>status_code = 200, headers = [],
          content = [(''message'', JStr ''successfully sent otp'')]\<rparr> \<and>
   snd (send_otp env0 ''nobody@x.com'' 42 7 [alice]) = [alice]"
proof -
  have h: "send_otp_email env0 ''nobody@x.com'' (generate_otp 42) ''1 min'' = Inr Delivered"
    by (simp add: env0_def)
  have a: "email alice \<noteq> ''nobody@x.com''" by (simp add: alice_def)
  then have b: "\<forall>r \<in> set [alice]. email r \<noteq> ''nobody@x.com''" by simp
  show ?thesis using h a b send_otp_acknowledges[OF h, of 7 "[alice]"] by blast
qed

text \<open>
  The claim as written has the request for an unknown email fail with NotFound. No
  recruiter has the email \<open>nobody@x.com\<close>, and the request is acknowledged.
\<close>

theorem send_otp_unknown_email_counterexample:
  "email alice \<noteq> ''nobody@x.com'' \<and>
   send_otp env0 ''nobody@x.com'' 42 7 [alice] =
     (Inr \<lparr>status_code = 200, headers = [],
           content = [(''message'', JStr ''successfully sent otp'')]\<rparr>, [alice])"
  by (simp add: send_otp_def Let_def ok_def update_where_def env0_def alice_def)

subsection \<open>Login\<close>

text \<open>
  C3 (the code at the failing input). The recruiter \<open>a@x.com\<close> is registered with the
  hash of the password \<open>p1\<close>; a login with the password \<open>wrong\<close> is answered with the
  message \<open>invalid credentials\<close> under the status 500, a server-error status, where the
  claim has a client error.
\<close>

theorem login_wrong_password_status:
  "login_recruiter env0 \<lparr>login_email = ''a@x.com'', login_password = ''wrong''\<rparr> 0 [alice] =
     (Inr \<lparr>status_code = 500, headers = [],
           content = [(''message'', JStr ''invalid credentials'')]\<rparr>, [alice])"
  by (simp add: login_recruiter_def env0_def alice_def ok_def)

lemma login_wrong_password_general:
  "filter (\<lambda>r. email r = login_email d) db = [r] \<Longrightarrow>
   \<not> verify_password env (login_password d) (password_hash r) \<Longrightarrow>
   login_recruiter env d now db =
     (Inr \<lparr>status_code = 500, headers = [],
           content = [(''message'', JStr ''invalid credentials'')]\<rparr>, db)"
  by (simp add: login_recruiter_def ok_def)

subsection \<open>The password hash in response bodies\<close>

text \<open>
  C4 (the code at the failing input). A verify-otp request with the right code before
  the expiry is answered 200 with every column of the recruiter's row, the
  \<open>password_hash\<close> among them.
\<close>

theorem verify_otp_body_has_password_hash:
  "\<exists>resp. fst (verify_otp env0 ''a@x.com'' ''123456'' 50 60 [alice]) = Inr resp \<and>
     status_code resp = 200 \<and>
     (''password_hash'', JStr (password_hash alice)) \<in> set (content resp)"
  by (simp add: verify_otp_def returning_def ok_def alice_def entity_columns_def
      login_columns_def)

text \<open>The same holds of the token introspection, and the login does remove the hash.\<close>

lemma verify_token_body_has_password_hash:
  "\<exists>resp. fst (verify_recruiter_access_token 1 [alice]) = Inr resp \<and>
     (''password_hash'', JStr (password_hash alice)) \<in> set (content resp)"
  by (simp add: verify_recruiter_access_token_def ok_def alice_def entity_columns_def
      login_columns_def)

lemma login_body_without_password_hash:
  "fst (login_recruiter env d now db) = Inr resp \<Longrightarrow>
     ''password_hash'' \<notin> fst ` set (content resp)"
  by (auto simp: login_recruiter_def ok_def pop_def login_columns_def Let_def
      split: sum.splits if_splits)

lemma update_body_without_password_hash:
  "fst (upate_recruiter env d i db) = Inr resp \<Longrightarrow>
     ''password_hash'' \<notin> fst ` set (content resp)"
  by (auto simp: upate_recruiter_def ok_def returned_columns_def Let_def
      split: sum.splits)

subsection \<open>The email\_verified flag\<close>

lemma snd_register:
  "snd (register_recruiter env d now db) = db \<or>
   snd (register_recruiter env d now db) =
     db @ [new_row d (hash_password env (reg_password d)) now db]"
  by (simp add: register_recruiter_def Let_def)

lemma snd_login: "snd (login_recruiter env d now db) = db"
  by (simp add: login_recruiter_def Let_def split: sum.splits)

lemma snd_get: "snd (get_recruiter i db) = db"
  by (simp add: get_recruiter_def split: sum.splits)

lemma snd_verify_token: "snd (verify_recruiter_access_token i db) = db"
  by (simp add: verify_recruiter_access_token_def split: sum.splits)

lemma snd_update:
  "\<exists>h. snd (upate_recruiter env d i db) = update_where (\<lambda>r. id_col r = i) (values_of d h) db"
  by (auto simp: upate_recruiter_def Let_def split: sum.splits)

lemma snd_send_otp:
  "snd (send_otp env e n now db) = db \<or>
   snd (send_otp env e n now db) =
     update_where (\<lambda>r. email r = e)
       (\<lambda>r. r\<lparr>email_otp := Some (generate_otp n),
              email_otp_expiry := Some (now + timedelta_seconds 60)\<rparr>) db"
  by (simp add: send_otp_def Let_def split: sum.splits)

lemma snd_verify_otp:
  "snd (verify_otp env e c now now_token db) = db \<or>
   (snd (verify_otp env e c now now_token db) =
      update_where (\<lambda>r. email r = e) (\<lambda>r. r\<lparr>email_verified := True\<rparr>) db \<and>
    outcome (fst (verify_otp env e c now now_token db)) = Some Accepted)"
  by (auto simp: verify_otp_def Let_def outcome_def ok_def returning_def one_Inr
      split: sum.splits option.splits)

lemma email_verified_values_of [simp]: "email_verified (values_of d h r) = email_verified r"
  by (simp add: values_of_def)

lemma id_col_values_of [simp]: "id_col (values_of d h r) = id_col r"
  by (simp add: values_of_def)

lemma email_verified_new_row [simp]: "\<not> email_verified (new_row d h now db)"
  by (simp add: new_row_def)

lemma keeps_verified:
  "length db \<le> length (snd (handle env c db)) \<and>
   (\<forall>i < length db. id_col (snd (handle env c db) ! i) = id_col (db ! i) \<and>
      (email_verified (db ! i) \<longrightarrow> email_verified (snd (handle env c db) ! i)))"
proof (cases c)
  case (Register d now)
  then show ?thesis using snd_register[of env d now db] by (auto simp: nth_append)
next
  case (Login d now)
  then show ?thesis by (simp add: snd_login)
next
  case (Fetch i)
  then show ?thesis by (simp add: snd_get)
next
  case (Update d i)
  then show ?thesis using snd_update[of env d i db] by (auto simp: nth_update_where)
next
  case (VerifyToken i)
  then show ?thesis by (simp add: snd_verify_token)
next
  case (SendOtp e n now)
  then show ?thesis using snd_send_otp[of env e n now db] by (auto simp: nth_update_where)
next
  case (VerifyOtp e c' now now_token)
  then show ?thesis using snd_verify_otp[of env e c' now now_token db]
    by (auto simp: nth_update_where)
qed

lemma becomes_verified:
  assumes "i < length (snd (handle env c db))"
    and "email_verified (snd (handle env c db) ! i)"
    and "i < length db \<longrightarrow> \<not> email_verified (db ! i)"
  shows "\<exists>e otp now now_token. c = VerifyOtp e otp now now_token \<and>
           outcome (fst (handle env c db)) = Some Accepted \<and> i < length db \<and> email (db ! i) = e"
proof (cases c)
  case (Register d now)
  then show ?thesis using assms snd_register[of env d now db]
    by (auto simp: nth_append split: if_splits)
next
  case (Login d now)
  then show ?thesis using assms by (simp add: snd_login)
next
  case (Fetch j)
  then show ?thesis using assms by (simp add: snd_get)
next
  case (Update d j)
  then show ?thesis using assms snd_update[of env d j db]
    by (auto simp: nth_update_where split: if_splits)
next
  case (VerifyToken j)
  then show ?thesis using assms by (simp add: snd_verify_token)
next
  case (SendOtp e n now)
  then show ?thesis using assms snd_send_otp[of env e n now db]
    by (auto simp: nth_update_where split: if_splits)
next
  case (VerifyOtp e c' now now_token)
  then show ?thesis using assms snd_verify_otp[of env e c' now now_token db]
    by (auto simp: nth_update_where split: if_splits)
qed

text \<open>
  C8. Invariant over every operation of the subsystem (register, login, fetch, update
  profile, verify token, send-otp, verify-otp): the rows of the table keep their place
  and their id, a recruiter whose \<open>email_verified\<close> is true has it true afterwards, and
  a recruiter whose \<open>email_verified\<close> is true afterwards without having been true
  before was there before, and the operation was a verify-otp request for that
  recruiter's email that was accepted.
\<close>

theorem email_verified_one_way:
  "length db \<le> length (snd (handle env c db)) \<and>
   (\<forall>i < length db. id_col (snd (handle env c db) ! i) = id_col (db ! i) \<and>
      (email_verified (db ! i) \<longrightarrow> email_verified (snd (handle env c db) ! i))) \<and>
   (\<forall>i < length (snd (handle env c db)).
      email_verified (snd (handle env c db) ! i) \<and>
      (i < length db \<longrightarrow> \<not> email_verified (db ! i)) \<longrightarrow>
      (\<exists>e otp now now_token. c = VerifyOtp e otp now now_token \<and>
         outcome (fst (handle env c db)) = Some Accepted \<and>
         i < length db \<and> email (db ! i) = e))"
  using keeps_verified[of db env c] becomes_verified[of _ env c db] by blast

theorem email_verified_one_way_witness:
  "(1::nat) < length [alice, bob] \<and> email_verified ([alice, bob] ! 1) \<and>
   email_verified (snd (handle env0 (SendOtp ''b@x.com'' 42 7) [alice, bob]) ! 1) \<and>
   (0::nat) < length (snd (handle env0 (VerifyOtp ''a@x.com'' ''123456'' 50 60) [alice, bob])) \<and>
   email_verified (snd (handle env0 (VerifyOtp ''a@x.com'' ''123456'' 50 60) [alice, bob]) ! 0) \<and>
   \<not> email_verified ([alice, bob] ! 0) \<and>
   outcome (fst (handle env0 (VerifyOtp ''a@x.com'' ''123456'' 50 60) [alice, bob])) = Some Accepted"
proof -
  have h1: "(1::nat) < length [alice, bob]" by simp
  have h2: "email_verified ([alice, bob] ! 1)" by (simp add: bob_def)
  have h3: "(0::nat) < length (snd (handle env0 (VerifyOtp ''a@x.com'' ''123456'' 50 60) [alice, bob]))"
    by (simp add: verify_otp_def returning_def update_where_def alice_def bob_def Let_def)
  have h4: "email_verified (snd (handle env0 (VerifyOtp ''a@x.com'' ''123456'' 50 60) [alice, bob]) ! 0)"
    by (simp add: verify_otp_def returning_def update_where_def alice_def bob_def Let_def)
  have h5: "\<not> email_verified ([alice, bob] ! 0)" by (simp add: alice_def)
  have a: "email_verified (snd (handle env0 (SendOtp ''b@x.com'' 42 7) [alice, bob]) ! 1)"
    using email_verified_one_way[of "[alice, bob]" env0 "SendOtp ''b@x.com'' 42 7"] h1 h2
    by blast
  have b: "outcome (fst (handle env0 (VerifyOtp ''a@x.com'' ''123456'' 50 60) [alice, bob])) = Some Accepted"
    using email_verified_one_way[of "[alice, bob]" env0 "VerifyOtp ''a@x.com'' ''123456'' 50 60"]
      h3 h4 h5 by blast
  show ?thesis using h1 h2 h3 h4 h5 a b by blast
qed


end
